theory Spec2Isabelle
  imports Complex_Main
begin

section \<open>Engine and SDK types the player works with\<close>

text \<open>
  The player of \<^verbatim>\<open>NdiMediaPlayer.cpp\<close> is one C++ object whose methods mutate its
  fields and call out to three kinds of collaborators: the NDI receiver library, the
  bound sinks and the subscribers of \<^verbatim>\<open>MediaEvent\<close>.  The model is sequential: every
  method is a function from the player record (and from whatever the collaborators
  answer during the call) to the new player record and the list of outward calls the
  method made, in program order.  \<^verbatim>\<open>FScopeLock\<close> and \<^verbatim>\<open>UE_LOG\<close> have no counterpart.
\<close>

datatype EMediaState =
    EMediaState_Closed
  | EMediaState_Error
  | EMediaState_Paused
  | EMediaState_Playing
  | EMediaState_Preparing
  | EMediaState_Stopped

text \<open>Of the engine's media events, the five this player broadcasts.\<close>

datatype EMediaEvent =
    EMediaEvent_MediaClosed
  | EMediaEvent_MediaOpened
  | EMediaEvent_PlaybackResumed
  | EMediaEvent_PlaybackSuspended
  | EMediaEvent_TracksChanged

text \<open>The track kinds the player tells apart; every other kind of the engine's enum
  takes the \<^verbatim>\<open>default\<close>/\<^verbatim>\<open>else\<close> branches and is \<open>EMediaTrackType_Other\<close> here.\<close>

datatype EMediaTrackType =
    EMediaTrackType_Audio
  | EMediaTrackType_Metadata
  | EMediaTrackType_Video
  | EMediaTrackType_Other

text \<open>Pixel formats of a texture sink: the two \<^verbatim>\<open>Open\<close> chooses between, and two of the
  others a sink may report.\<close>

datatype EMediaTextureSinkFormat =
    EMediaTextureSinkFormat_CharBGRA
  | EMediaTextureSinkFormat_CharUYVY
  | EMediaTextureSinkFormat_CharYUY2
  | EMediaTextureSinkFormat_FloatRGBA

datatype EMediaTextureSinkMode =
    EMediaTextureSinkMode_Buffered
  | EMediaTextureSinkMode_Unbuffered

type_synonym FIntPoint = "int \<times> int"
type_synonym sink_ptr = nat
type_synonym recv_instance = nat
type_synonym buffer_ref = nat

definition INDEX_NONE :: int where
  "INDEX_NONE = - 1"

definition FIntPoint_ZeroValue :: FIntPoint where
  "FIntPoint_ZeroValue = (0, 0)"

text \<open>Values of the NDI SDK's receiver enums that \<^verbatim>\<open>Open\<close> compares with or defaults to.\<close>

definition NDIlib_recv_color_format_e_BGRX_BGRA :: int where
  "NDIlib_recv_color_format_e_BGRX_BGRA = 0"

definition NDIlib_recv_color_format_e_UYVY_BGRA :: int where
  "NDIlib_recv_color_format_e_UYVY_BGRA = 1"

definition NDIlib_recv_bandwidth_highest :: int where
  "NDIlib_recv_bandwidth_highest = 100"

datatype NDIlib_frame_type_e =
    NDIlib_frame_type_none
  | NDIlib_frame_type_video
  | NDIlib_frame_type_audio
  | NDIlib_frame_type_metadata
  | NDIlib_frame_type_error

record NDIlib_video_frame_v2_t =
  xres :: int
  yres :: int
  line_stride_in_bytes :: int
  video_timecode :: int
  video_p_data :: buffer_ref

record NDIlib_audio_frame_v2_t =
  sample_rate :: int
  no_channels :: int
  no_samples :: int
  audio_timecode :: int

record NDIlib_metadata_frame_t =
  metadata_length :: int
  metadata_timecode :: int
  metadata_p_data :: string

datatype NDIlib_source_t =
    Source_ip_address string
  | Source_ndi_name string

record NDIlib_recv_create_t =
  source_to_connect_to :: NDIlib_source_t
  color_format :: int
  bandwidth :: int
  allow_video_fields :: bool

section \<open>Calls the player makes on its collaborators\<close>

datatype AudioSinkCall =
    ShutdownAudioSink
  | InitializeAudioSink int int
  | ResumeAudioSink
  | PauseAudioSink
  | FlushAudioSink
  | PlayAudioSink nat int

datatype TextureSinkCall =
    ShutdownTextureSink
  | InitializeTextureSink FIntPoint FIntPoint EMediaTextureSinkFormat EMediaTextureSinkMode
  | UpdateTextureSinkBuffer buffer_ref int
  | DisplayTextureSinkBuffer int

datatype BinarySinkCall =
    ShutdownBinarySink
  | InitializeBinarySink
  | ProcessBinarySinkData string int int

text \<open>
  One entry per outward call, in the order the statements run.  \<open>PlayAudioSink n t\<close>
  carries the byte length and the timecode handed to the sink (the sample data itself
  is produced by the SDK's float conversion and is not modelled).  The three
  \<open>\<dots>_assigned\<close> entries mark the assignment to the player's sink pointer, so that its
  place among the sink calls of a binding method can be read off the list.
\<close>

datatype effect =
    Broadcast EMediaEvent
  | NDIlib_recv_destroy recv_instance
  | NDIlib_recv_create_v2 NDIlib_recv_create_t
  | NDIlib_recv_add_connection_metadata recv_instance string
  | NDIlib_recv_free_metadata
  | NDIlib_recv_free_video_v2
  | OnAudioSink sink_ptr AudioSinkCall
  | OnVideoSink sink_ptr TextureSinkCall
  | OnMetadataSink sink_ptr BinarySinkCall
  | AudioSink_assigned "sink_ptr option"
  | VideoSink_assigned "sink_ptr option"
  | MetadataSink_assigned "sink_ptr option"

fun broadcasts :: "effect list \<Rightarrow> EMediaEvent list" where
  "broadcasts [] = []"
| "broadcasts (Broadcast e # es) = e # broadcasts es"
| "broadcasts (_ # es) = broadcasts es"

fun audio_sink_calls :: "effect list \<Rightarrow> (sink_ptr \<times> AudioSinkCall) list" where
  "audio_sink_calls [] = []"
| "audio_sink_calls (OnAudioSink s c # es) = (s, c) # audio_sink_calls es"
| "audio_sink_calls (_ # es) = audio_sink_calls es"

fun video_sink_calls :: "effect list \<Rightarrow> (sink_ptr \<times> TextureSinkCall) list" where
  "video_sink_calls [] = []"
| "video_sink_calls (OnVideoSink s c # es) = (s, c) # video_sink_calls es"
| "video_sink_calls (_ # es) = video_sink_calls es"

fun is_InitializeTextureSink :: "sink_ptr \<times> TextureSinkCall \<Rightarrow> bool" where
  "is_InitializeTextureSink (_, InitializeTextureSink _ _ _ _) = True"
| "is_InitializeTextureSink _ = False"

fun receivers_created :: "effect list \<Rightarrow> NDIlib_recv_create_t list" where
  "receivers_created [] = []"
| "receivers_created (NDIlib_recv_create_v2 d # es) = d # receivers_created es"
| "receivers_created (_ # es) = receivers_created es"

section \<open>The player object\<close>

text \<open>
  Modelled from the spec: the class \<^verbatim>\<open>FNdiMediaAudioSampler\<close> (header
  \<^verbatim>\<open>NdiMediaAudioSampler.h\<close>) is not among the sources.  The spec describes it as a
  polling activity "parameterized by a transport-handle reference that may be null
  (disabled) or a live handle (enabled)"; its state is that reference, written by
  \<^verbatim>\<open>SetReceiverInstance\<close>.
\<close>

record FNdiMediaAudioSampler =
  SamplerReceiverInstance :: "recv_instance option"

definition SetReceiverInstance ::
  "FNdiMediaAudioSampler \<Rightarrow> recv_instance option \<Rightarrow> FNdiMediaAudioSampler" where
  "SetReceiverInstance S h = S\<lparr>SamplerReceiverInstance := h\<rparr>"

definition SamplerEnabled :: "FNdiMediaAudioSampler \<Rightarrow> bool" where
  "SamplerEnabled S = (SamplerReceiverInstance S \<noteq> None)"

record FNdiMediaPlayer =
  AudioSink :: "sink_ptr option"
  MetadataSink :: "sink_ptr option"
  VideoSink :: "sink_ptr option"
  SelectedAudioTrack :: int
  SelectedMetadataTrack :: int
  SelectedVideoTrack :: int
  AudioSampler :: FNdiMediaAudioSampler
  CurrentState :: EMediaState
  CurrentUrl :: string
  LastAudioChannels :: int
  LastAudioSampleRate :: int
  LastBufferDim :: FIntPoint
  LastVideoDim :: FIntPoint
  LastVideoFrameRate :: real
  Paused :: bool
  ReceiverInstance :: "recv_instance option"
  VideoSinkFormat :: EMediaTextureSinkFormat

text \<open>The constructor's initialiser list.\<close>

definition NewPlayer :: FNdiMediaPlayer where
  "NewPlayer =
     \<lparr> AudioSink = None,
       MetadataSink = None,
       VideoSink = None,
       SelectedAudioTrack = INDEX_NONE,
       SelectedMetadataTrack = INDEX_NONE,
       SelectedVideoTrack = INDEX_NONE,
       AudioSampler = \<lparr> SamplerReceiverInstance = None \<rparr>,
       CurrentState = EMediaState_Closed,
       CurrentUrl = [],
       LastAudioChannels = 0,
       LastAudioSampleRate = 0,
       LastBufferDim = FIntPoint_ZeroValue,
       LastVideoDim = FIntPoint_ZeroValue,
       LastVideoFrameRate = 0,
       Paused = False,
       ReceiverInstance = None,
       VideoSinkFormat = EMediaTextureSinkFormat_CharUYVY \<rparr>"

subsection \<open>UpdateAudioSampler\<close>

definition UpdateAudioSampler :: "FNdiMediaPlayer \<Rightarrow> FNdiMediaPlayer" where
  "UpdateAudioSampler p =
     (let SampleAudio = (\<not> Paused p \<and> AudioSink p \<noteq> None \<and> SelectedAudioTrack p = 0)
      in p\<lparr>AudioSampler :=
             SetReceiverInstance (AudioSampler p)
               (if SampleAudio then ReceiverInstance p else None)\<rparr>)"

subsection \<open>IMediaControls\<close>

definition GetRate :: "FNdiMediaPlayer \<Rightarrow> real" where
  "GetRate p = (if CurrentState p = EMediaState_Playing then 1 else 0)"

definition GetState :: "FNdiMediaPlayer \<Rightarrow> EMediaState" where
  "GetState p = CurrentState p"

definition SetRate :: "FNdiMediaPlayer \<Rightarrow> real \<Rightarrow> bool \<times> FNdiMediaPlayer" where
  "SetRate p Rate =
     (if Rate = 0 then (True, p\<lparr>Paused := True\<rparr>)
      else if Rate = 1 then (True, p\<lparr>Paused := False\<rparr>)
      else (False, p))"

subsection \<open>Close\<close>

definition Close :: "FNdiMediaPlayer \<Rightarrow> FNdiMediaPlayer \<times> effect list" where
  "Close p =
     (let destroyed = (case ReceiverInstance p of
                         None \<Rightarrow> []
                       | Some h \<Rightarrow> [NDIlib_recv_destroy h]);
          p1 = p\<lparr> ReceiverInstance := None,
                  CurrentState := EMediaState_Closed,
                  CurrentUrl := [],
                  LastAudioChannels := 0,
                  LastAudioSampleRate := 0,
                  LastBufferDim := FIntPoint_ZeroValue,
                  LastVideoDim := FIntPoint_ZeroValue,
                  LastVideoFrameRate := 0,
                  SelectedAudioTrack := INDEX_NONE,
                  SelectedMetadataTrack := INDEX_NONE,
                  SelectedVideoTrack := INDEX_NONE \<rparr>
      in (UpdateAudioSampler p1,
          destroyed @ [Broadcast EMediaEvent_TracksChanged,
                       Broadcast EMediaEvent_MediaClosed]))"

section \<open>FString operations used by Open\<close>

text \<open>
  \<^verbatim>\<open>FString::StartsWith\<close> and \<^verbatim>\<open>FString::ReplaceInline\<close> are called without a
  search-case argument, and the engine's default is \<^verbatim>\<open>ESearchCase::IgnoreCase\<close>: both
  compare letters without regard to case.
\<close>

definition ToLower :: "char \<Rightarrow> char" where
  "ToLower c =
     (case map_of (zip ''ABCDEFGHIJKLMNOPQRSTUVWXYZ'' ''abcdefghijklmnopqrstuvwxyz'') c of
        None \<Rightarrow> c
      | Some l \<Rightarrow> l)"

definition StartsWith :: "string \<Rightarrow> string \<Rightarrow> bool" where
  "StartsWith s pre =
     (pre \<noteq> [] \<and> length pre \<le> length s \<and>
      map ToLower (take (length pre) s) = map ToLower pre)"

definition RightChop :: "nat \<Rightarrow> string \<Rightarrow> string" where
  "RightChop n s = drop n s"

function ReplaceInline :: "string \<Rightarrow> string \<Rightarrow> string \<Rightarrow> string" where
  "ReplaceInline From To s =
     (if From = [] \<or> s = [] then s
      else if StartsWith s From then To @ ReplaceInline From To (drop (length From) s)
      else hd s # ReplaceInline From To (tl s))"
  by pat_completeness auto
termination
  by (relation "measure (\<lambda>(From, To, s). length s)") auto

declare ReplaceInline.simps [simp del]

definition IsWhitespace :: "char \<Rightarrow> bool" where
  "IsWhitespace c = (c \<in> set [CHR '' '', CHR 0x09, CHR 0x0A, CHR 0x0B, CHR 0x0C, CHR 0x0D])"

definition Trim :: "string \<Rightarrow> string" where
  "Trim s = dropWhile IsWhitespace s"

definition TrimTrailing :: "string \<Rightarrow> string" where
  "TrimTrailing s = rev (dropWhile IsWhitespace (rev s))"

text \<open>
  \<^verbatim>\<open>Printf\<close> with \<^verbatim>\<open>%i\<close>: the conversion reads an \<^verbatim>\<open>int\<close>, so of the 64-bit option value
  its low 32 bits are printed, as a signed decimal number.
\<close>

function decimal :: "nat \<Rightarrow> string" where
  "decimal n =
     (if n < 10 then [''0123456789'' ! n]
      else decimal (n div 10) @ [''0123456789'' ! (n mod 10)])"
  by pat_completeness auto
termination
  by (relation "measure id") auto

declare decimal.simps [simp del]

definition to_int32 :: "int \<Rightarrow> int" where
  "to_int32 v = (let m = v mod 4294967296 in if m < 2147483648 then m else m - 4294967296)"

definition Printf_i :: "int \<Rightarrow> string" where
  "Printf_i v =
     (let w = to_int32 v
      in if w < 0 then CHR ''-'' # decimal (nat (- w)) else decimal (nat w))"

definition dquote :: string where
  "dquote = [CHR 0x22]"

text \<open>The format \<^verbatim>\<open>" name=\"%s\""\<close> with its argument already rendered.\<close>

definition attribute :: "string \<Rightarrow> string \<Rightarrow> string" where
  "attribute name v = '' '' @ name @ ''='' @ dquote @ v @ dquote"

section \<open>Open\<close>

text \<open>The option keys of namespace \<^verbatim>\<open>NdiMedia\<close>, and an options object as its two
  lookup methods (key and default value to value).\<close>

datatype NdiMediaOption =
    AudioChannelsOption
  | AudioSampleRateOption
  | BandwidthOption
  | ColorFormatOption
  | FrameRateDOption
  | FrameRateNOption
  | ProgressiveOption
  | VideoHeightOption
  | VideoWidthOption

record IMediaOptions =
  GetMediaOption :: "NdiMediaOption \<Rightarrow> int \<Rightarrow> int"
  GetMediaOptionString :: "NdiMediaOption \<Rightarrow> string \<Rightarrow> string"

record UNdiMediaSettings =
  ProductName :: string
  ProductDescription :: string
  Manufacturer :: string
  VersionName :: string
  SerialNumber :: string
  SessionName :: string
  CustomMetaData :: string

text \<open>\<^verbatim>\<open>SendMetadata\<close> asserts a live receiver; its three call sites in \<^verbatim>\<open>Open\<close> come after
  the null test, so the model passes that receiver.\<close>

definition SendMetadata :: "recv_instance \<Rightarrow> string \<Rightarrow> effect list" where
  "SendMetadata h Metadata = [NDIlib_recv_add_connection_metadata h Metadata]"

definition ProductMetadata :: "UNdiMediaSettings \<Rightarrow> string" where
  "ProductMetadata Settings =
     ''<ndi_product short_name='' @ dquote @ ProductName Settings @ dquote @
     '' long_name='' @ dquote @ ProductDescription Settings @ dquote @
     '' manufacturer='' @ dquote @ Manufacturer Settings @ dquote @
     '' version='' @ dquote @ VersionName Settings @ dquote @
     '' serial_number='' @ dquote @ SerialNumber Settings @ dquote @
     '' session_name='' @ dquote @ SessionName Settings @ dquote @ '' />''"

definition AudioFormatString :: "IMediaOptions \<Rightarrow> string" where
  "AudioFormatString Options =
     (let AudioChannels = GetMediaOption Options AudioChannelsOption 0;
          AudioSampleRate = GetMediaOption Options AudioSampleRateOption 0
      in (if AudioChannels > 0 then attribute ''no_channels'' (Printf_i AudioChannels) else []) @
         (if AudioSampleRate > 0 then attribute ''sample_rate'' (Printf_i AudioSampleRate) else []))"

text \<open>Lines 357 to 390: the second lookup, into \<^verbatim>\<open>FrameRateN\<close>, uses the key
  \<^verbatim>\<open>NdiMedia::FrameRateDOption\<close> as the source has it.\<close>

definition VideoFormatString :: "IMediaOptions \<Rightarrow> string" where
  "VideoFormatString Options =
     (let FrameRateD = GetMediaOption Options FrameRateDOption 0;
          FrameRateN = GetMediaOption Options FrameRateDOption 0;
          Progressive = GetMediaOptionString Options ProgressiveOption [];
          VideoHeight = GetMediaOption Options VideoHeightOption 0;
          VideoWidth = GetMediaOption Options VideoWidthOption 0
      in (if FrameRateD > 0 then attribute ''frame_rate_d'' (Printf_i FrameRateD) else []) @
         (if FrameRateN > 0 then attribute ''frame_rate_n'' (Printf_i FrameRateN) else []) @
         (if Progressive \<noteq> [] then attribute ''progressive'' Progressive else []) @
         (if VideoHeight > 0 then attribute ''yres'' (Printf_i VideoHeight) else []) @
         (if VideoWidth > 0 then attribute ''xres'' (Printf_i VideoWidth) else []))"

definition FormatMetadata :: "string \<Rightarrow> string \<Rightarrow> string" where
  "FormatMetadata AudioFormat VideoFormat =
     ''<ndi_format><audio_format '' @ AudioFormat @ '' /><video_format '' @ VideoFormat @
     '' /></ndi_format>''"

definition SourceDescriptor :: "string \<Rightarrow> string \<Rightarrow> NDIlib_source_t" where
  "SourceDescriptor SourceStr ComputerName =
     (if CHR '':'' \<in> set SourceStr then Source_ip_address SourceStr
      else if StartsWith SourceStr ''localhost ''
        then Source_ndi_name (ReplaceInline ''localhost'' ComputerName SourceStr)
        else Source_ndi_name SourceStr)"

text \<open>
  \<open>Open p Url Options Settings ComputerName created\<close>: \<open>Settings\<close> is the default
  settings object, \<open>ComputerName\<close> what the platform reports, and \<open>created\<close> what
  \<^verbatim>\<open>NDIlib_recv_create_v2\<close> returns if it is called (\<open>None\<close> for \<^verbatim>\<open>nullptr\<close>).
\<close>

definition Open ::
  "FNdiMediaPlayer \<Rightarrow> string \<Rightarrow> IMediaOptions \<Rightarrow> UNdiMediaSettings \<Rightarrow> string \<Rightarrow>
   recv_instance option \<Rightarrow> bool \<times> FNdiMediaPlayer \<times> effect list" where
  "Open p Url Options Settings ComputerName created =
     (case Close p of (p0, e0) \<Rightarrow>
        if Url = [] \<or> \<not> StartsWith Url ''ndi://'' then (False, p0, e0)
        else
          let SourceStr = RightChop 6 Url;
              Requested = to_int32 (GetMediaOption Options ColorFormatOption 0);
              ColorFormat =
                (if Requested = NDIlib_recv_color_format_e_BGRX_BGRA then Requested
                 else if Requested = NDIlib_recv_color_format_e_UYVY_BGRA then Requested
                 else NDIlib_recv_color_format_e_UYVY_BGRA);
              p1 = p0\<lparr>VideoSinkFormat :=
                        (if Requested = NDIlib_recv_color_format_e_BGRX_BGRA
                         then EMediaTextureSinkFormat_CharBGRA
                         else EMediaTextureSinkFormat_CharUYVY)\<rparr>;
              Bandwidth = GetMediaOption Options BandwidthOption NDIlib_recv_bandwidth_highest;
              RcvCreateDesc =
                \<lparr> source_to_connect_to = SourceDescriptor SourceStr ComputerName,
                  color_format = ColorFormat,
                  bandwidth = to_int32 Bandwidth,
                  allow_video_fields = True \<rparr>;
              p2 = p1\<lparr>ReceiverInstance := created\<rparr>;
              e1 = e0 @ [NDIlib_recv_create_v2 RcvCreateDesc]
          in (case created of
                None \<Rightarrow> (False, p2, e1)
              | Some h \<Rightarrow>
                 let e2 = SendMetadata h (ProductMetadata Settings);
                     AudioFormat = AudioFormatString Options;
                     VideoFormat = VideoFormatString Options;
                     e3 = (if AudioFormat \<noteq> [] \<or> VideoFormat \<noteq> []
                           then SendMetadata h (FormatMetadata AudioFormat VideoFormat)
                           else []);
                     CustomMetadata = TrimTrailing (Trim (CustomMetaData Settings));
                     e4 = (if CustomMetadata \<noteq> [] then SendMetadata h CustomMetadata else [])
                 in (True,
                     p2\<lparr>CurrentUrl := Url\<rparr>,
                     e1 @ e2 @ e3 @ e4 @
                     [Broadcast EMediaEvent_TracksChanged,
                      Broadcast EMediaEvent_MediaOpened])))"

section \<open>TickPlayer and the metadata frame path\<close>

text \<open>The reply of one \<^verbatim>\<open>NDIlib_recv_capture_v2\<close> poll for a metadata frame.\<close>

type_synonym metadata_capture = "NDIlib_frame_type_e \<times> NDIlib_metadata_frame_t"

text \<open>\<^verbatim>\<open>CaptureMetadataFrame\<close> dereferences \<^verbatim>\<open>MetadataSink\<close>; its only caller has tested the
  pointer, and the \<open>None\<close> branch stands for the call that never happens.\<close>

definition CaptureMetadataFrame :: "FNdiMediaPlayer \<Rightarrow> metadata_capture \<Rightarrow> effect list" where
  "CaptureMetadataFrame p reply =
     (case reply of (FrameType, MetadataFrame) \<Rightarrow>
        if FrameType = NDIlib_frame_type_error then []
        else if FrameType \<noteq> NDIlib_frame_type_metadata then []
        else (case MetadataSink p of
                None \<Rightarrow> []
              | Some s \<Rightarrow>
                  [OnMetadataSink s
                     (ProcessBinarySinkData (metadata_p_data MetadataFrame)
                        (metadata_length MetadataFrame) (metadata_timecode MetadataFrame)),
                   NDIlib_recv_free_metadata]))"

text \<open>The state \<^verbatim>\<open>TickPlayer\<close> aims at, from the pause flag and the connection count the
  receiver reports.\<close>

definition TargetState :: "FNdiMediaPlayer \<Rightarrow> int \<Rightarrow> EMediaState" where
  "TargetState p no_connections =
     (let IsConnected = (no_connections > 0)
      in if Paused p then EMediaState_Paused
         else if IsConnected then EMediaState_Playing
         else EMediaState_Preparing)"

definition TickPlayer ::
  "FNdiMediaPlayer \<Rightarrow> int \<Rightarrow> metadata_capture \<Rightarrow> FNdiMediaPlayer \<times> effect list" where
  "TickPlayer p no_connections reply =
     (if ReceiverInstance p = None then (p, [])
      else
        let State = TargetState p no_connections;
            updated =
              (if State \<noteq> CurrentState p \<and> AudioSink p \<noteq> None then
                 let p1 = UpdateAudioSampler (p\<lparr>CurrentState := State\<rparr>)
                 in if State = EMediaState_Playing then
                      (p1, Broadcast EMediaEvent_PlaybackResumed #
                           (case AudioSink p1 of
                              None \<Rightarrow> []
                            | Some s \<Rightarrow> [OnAudioSink s ResumeAudioSink]))
                    else
                      (p1, Broadcast EMediaEvent_PlaybackSuspended #
                           (case AudioSink p1 of
                              None \<Rightarrow> []
                            | Some s \<Rightarrow> [OnAudioSink s PauseAudioSink,
                                         OnAudioSink s FlushAudioSink]))
               else (p, []))
        in (fst updated,
            snd updated @
            (if MetadataSink (fst updated) \<noteq> None
             then CaptureMetadataFrame (fst updated) reply else [])))"

section \<open>Sink binding\<close>

definition SetAudioSink ::
  "FNdiMediaPlayer \<Rightarrow> sink_ptr option \<Rightarrow> FNdiMediaPlayer \<times> effect list" where
  "SetAudioSink p Sink =
     (if Sink = AudioSink p then (p, [])
      else
        (UpdateAudioSampler (p\<lparr>AudioSink := Sink\<rparr>),
         (case AudioSink p of
            None \<Rightarrow> []
          | Some old \<Rightarrow> [OnAudioSink old ShutdownAudioSink]) @
         (case Sink of
            None \<Rightarrow> []
          | Some s \<Rightarrow>
              [OnAudioSink s
                 (InitializeAudioSink (LastAudioChannels p) (LastAudioSampleRate p))]) @
         [AudioSink_assigned Sink]))"

definition SetMetadataSink ::
  "FNdiMediaPlayer \<Rightarrow> sink_ptr option \<Rightarrow> FNdiMediaPlayer \<times> effect list" where
  "SetMetadataSink p Sink =
     (if Sink = MetadataSink p then (p, [])
      else
        (p\<lparr>MetadataSink := Sink\<rparr>,
         (case MetadataSink p of
            None \<Rightarrow> []
          | Some old \<Rightarrow> [OnMetadataSink old ShutdownBinarySink]) @
         (case Sink of
            None \<Rightarrow> []
          | Some s \<Rightarrow> [OnMetadataSink s InitializeBinarySink]) @
         [MetadataSink_assigned Sink]))"

text \<open>In \<^verbatim>\<open>SetVideoSink\<close> the assignment \<^verbatim>\<open>VideoSink = Sink\<close> (line 551) stands between
  the shutdown of the old sink and the initialisation of the new one (line 555).\<close>

definition SetVideoSink ::
  "FNdiMediaPlayer \<Rightarrow> sink_ptr option \<Rightarrow> FNdiMediaPlayer \<times> effect list" where
  "SetVideoSink p Sink =
     (if Sink = VideoSink p then (p, [])
      else
        (p\<lparr>VideoSink := Sink\<rparr>,
         (case VideoSink p of
            None \<Rightarrow> []
          | Some old \<Rightarrow> [OnVideoSink old ShutdownTextureSink]) @
         [VideoSink_assigned Sink] @
         (case Sink of
            None \<Rightarrow> []
          | Some s \<Rightarrow>
              [OnVideoSink s
                 (InitializeTextureSink (LastVideoDim p) (LastBufferDim p)
                    (VideoSinkFormat p) EMediaTextureSinkMode_Unbuffered)])))"

section \<open>IMediaTracks\<close>

definition GetNumTracks :: "FNdiMediaPlayer \<Rightarrow> EMediaTrackType \<Rightarrow> int" where
  "GetNumTracks p TrackType =
     (if ReceiverInstance p \<noteq> None \<and>
         (TrackType = EMediaTrackType_Audio \<or> TrackType = EMediaTrackType_Metadata \<or>
          TrackType = EMediaTrackType_Video)
      then 1 else 0)"

definition GetSelectedTrack :: "FNdiMediaPlayer \<Rightarrow> EMediaTrackType \<Rightarrow> int" where
  "GetSelectedTrack p TrackType =
     (if ReceiverInstance p = None then INDEX_NONE
      else (case TrackType of
              EMediaTrackType_Audio \<Rightarrow> 0
            | EMediaTrackType_Metadata \<Rightarrow> 0
            | EMediaTrackType_Video \<Rightarrow> 0
            | EMediaTrackType_Other \<Rightarrow> INDEX_NONE))"

definition SelectTrack ::
  "FNdiMediaPlayer \<Rightarrow> EMediaTrackType \<Rightarrow> int \<Rightarrow> bool \<times> FNdiMediaPlayer" where
  "SelectTrack p TrackType TrackIndex =
     (if TrackIndex \<noteq> INDEX_NONE \<and> TrackIndex \<noteq> 0 then (False, p)
      else if TrackType = EMediaTrackType_Audio
        then (True, UpdateAudioSampler (p\<lparr>SelectedAudioTrack := TrackIndex\<rparr>))
      else if TrackType = EMediaTrackType_Metadata
        then (True, p\<lparr>SelectedMetadataTrack := TrackIndex\<rparr>)
      else if TrackType = EMediaTrackType_Video
        then (True, p\<lparr>SelectedVideoTrack := TrackIndex\<rparr>)
      else (False, p))"

section \<open>The audio and video frame paths\<close>

text \<open>
  What a bound sink answers while one frame is processed: the values of its two
  getters and the result of its initialise hook, should the player call it.  Any
  behaviour of a sink over a run of frames is a sequence of such answers.
\<close>

record AudioSinkReplies =
  GetAudioSinkChannels :: int
  GetAudioSinkSampleRate :: int
  InitializeAudioSinkResult :: bool

record TextureSinkReplies =
  GetTextureSinkFormat :: EMediaTextureSinkFormat
  GetTextureSinkDimensions :: FIntPoint
  InitializeTextureSinkResult :: bool

text \<open>\<^verbatim>\<open>uint32 TotalSamples = AudioFrame.no_samples * AudioFrame.no_channels\<close>: the product
  of two \<^verbatim>\<open>int\<close>s stored in 32 bits without sign.\<close>

definition TotalSamples :: "NDIlib_audio_frame_v2_t \<Rightarrow> nat" where
  "TotalSamples AudioFrame =
     nat ((no_samples AudioFrame * no_channels AudioFrame) mod 4294967296)"

definition sizeof_int16 :: nat where
  "sizeof_int16 = 2"

definition ProcessAudioFrame ::
  "FNdiMediaPlayer \<Rightarrow> NDIlib_audio_frame_v2_t \<Rightarrow> AudioSinkReplies \<Rightarrow>
   FNdiMediaPlayer \<times> effect list" where
  "ProcessAudioFrame p AudioFrame sink =
     (let p1 = p\<lparr> LastAudioChannels := no_channels AudioFrame,
                  LastAudioSampleRate := sample_rate AudioFrame \<rparr>
      in case AudioSink p1 of
           None \<Rightarrow> (p1, [])
         | Some s \<Rightarrow>
             if GetAudioSinkChannels sink \<noteq> no_channels AudioFrame \<or>
                GetAudioSinkSampleRate sink \<noteq> sample_rate AudioFrame
             then
               (if \<not> InitializeAudioSinkResult sink then
                  (p1, [OnAudioSink s (InitializeAudioSink (no_channels AudioFrame)
                                         (sample_rate AudioFrame))])
                else
                  (p1, [OnAudioSink s (InitializeAudioSink (no_channels AudioFrame)
                                         (sample_rate AudioFrame)),
                        OnAudioSink s (PlayAudioSink (TotalSamples AudioFrame * sizeof_int16)
                                         (audio_timecode AudioFrame))]))
             else
               (p1, [OnAudioSink s (PlayAudioSink (TotalSamples AudioFrame * sizeof_int16)
                                      (audio_timecode AudioFrame))]))"

definition HandleAudioSamplerSample ::
  "FNdiMediaPlayer \<Rightarrow> NDIlib_audio_frame_v2_t \<Rightarrow> AudioSinkReplies \<Rightarrow>
   FNdiMediaPlayer \<times> effect list" where
  "HandleAudioSamplerSample p AudioFrame sink = ProcessAudioFrame p AudioFrame sink"

text \<open>\<^verbatim>\<open>line_stride_in_bytes / 4\<close> on \<^verbatim>\<open>int\<close> rounds towards zero.\<close>

definition div4 :: "int \<Rightarrow> int" where
  "div4 a = (if 0 \<le> a then a div 4 else - ((- a) div 4))"

definition ProcessVideoFrame ::
  "FNdiMediaPlayer \<Rightarrow> NDIlib_video_frame_v2_t \<Rightarrow> TextureSinkReplies \<Rightarrow>
   FNdiMediaPlayer \<times> effect list" where
  "ProcessVideoFrame p VideoFrame sink =
     (let p1 = p\<lparr> LastBufferDim := (div4 (line_stride_in_bytes VideoFrame), yres VideoFrame),
                  LastVideoDim := (xres VideoFrame, yres VideoFrame) \<rparr>;
          forward = (\<lambda>s. [OnVideoSink s (UpdateTextureSinkBuffer (video_p_data VideoFrame)
                                           (line_stride_in_bytes VideoFrame)),
                           OnVideoSink s (DisplayTextureSinkBuffer (video_timecode VideoFrame))])
      in case VideoSink p1 of
           None \<Rightarrow> (p1, [])
         | Some s \<Rightarrow>
             if GetTextureSinkFormat sink \<noteq> VideoSinkFormat p1 \<or>
                GetTextureSinkDimensions sink \<noteq> LastVideoDim p1
             then
               (if \<not> InitializeTextureSinkResult sink then
                  (p1, [OnVideoSink s
                          (InitializeTextureSink (LastVideoDim p1) (LastBufferDim p1)
                             (VideoSinkFormat p1) EMediaTextureSinkMode_Unbuffered)])
                else
                  (p1, OnVideoSink s
                         (InitializeTextureSink (LastVideoDim p1) (LastBufferDim p1)
                            (VideoSinkFormat p1) EMediaTextureSinkMode_Unbuffered) #
                       forward s))
             else (p1, forward s))"

type_synonym video_capture = "NDIlib_frame_type_e \<times> NDIlib_video_frame_v2_t"

definition CaptureVideoFrame ::
  "FNdiMediaPlayer \<Rightarrow> video_capture \<Rightarrow> TextureSinkReplies \<Rightarrow> FNdiMediaPlayer \<times> effect list" where
  "CaptureVideoFrame p reply sink =
     (case reply of (FrameType, VideoFrame) \<Rightarrow>
        if FrameType = NDIlib_frame_type_error then (p, [])
        else if FrameType \<noteq> NDIlib_frame_type_video then (p, [])
        else (case ProcessVideoFrame p VideoFrame sink of
                (p1, e) \<Rightarrow> (p1, e @ [NDIlib_recv_free_video_v2])))"

definition TickVideo ::
  "FNdiMediaPlayer \<Rightarrow> video_capture \<Rightarrow> TextureSinkReplies \<Rightarrow> FNdiMediaPlayer \<times> effect list" where
  "TickVideo p reply sink = (if \<not> Paused p then CaptureVideoFrame p reply sink else (p, []))"

section \<open>Sequences of calls\<close>

datatype PlayerCall =
    Call_Close
  | Call_Open string IMediaOptions UNdiMediaSettings string "recv_instance option"
  | Call_TickPlayer int metadata_capture
  | Call_TickVideo video_capture TextureSinkReplies
  | Call_SetRate real
  | Call_SetAudioSink "sink_ptr option"
  | Call_SetMetadataSink "sink_ptr option"
  | Call_SetVideoSink "sink_ptr option"
  | Call_SelectTrack EMediaTrackType int
  | Call_HandleAudioSamplerSample NDIlib_audio_frame_v2_t AudioSinkReplies

fun step :: "FNdiMediaPlayer \<Rightarrow> PlayerCall \<Rightarrow> FNdiMediaPlayer" where
  "step p Call_Close = fst (Close p)"
| "step p (Call_Open Url Options Settings ComputerName created) =
     fst (snd (Open p Url Options Settings ComputerName created))"
| "step p (Call_TickPlayer no_connections reply) = fst (TickPlayer p no_connections reply)"
| "step p (Call_TickVideo reply sink) = fst (TickVideo p reply sink)"
| "step p (Call_SetRate Rate) = snd (SetRate p Rate)"
| "step p (Call_SetAudioSink Sink) = fst (SetAudioSink p Sink)"
| "step p (Call_SetMetadataSink Sink) = fst (SetMetadataSink p Sink)"
| "step p (Call_SetVideoSink Sink) = fst (SetVideoSink p Sink)"
| "step p (Call_SelectTrack TrackType TrackIndex) = snd (SelectTrack p TrackType TrackIndex)"
| "step p (Call_HandleAudioSamplerSample AudioFrame sink) =
     fst (HandleAudioSamplerSample p AudioFrame sink)"

fun run :: "FNdiMediaPlayer \<Rightarrow> PlayerCall list \<Rightarrow> FNdiMediaPlayer" where
  "run p [] = p"
| "run p (c # cs) = run (step p c) cs"

section \<open>Observations on players and call lists\<close>

text \<open>The track selection the player has recorded for a kind, and the control-channel
  payloads among a list of calls.\<close>

definition RecordedTrack :: "FNdiMediaPlayer \<Rightarrow> EMediaTrackType \<Rightarrow> int" where
  "RecordedTrack p TrackType =
     (case TrackType of
        EMediaTrackType_Audio \<Rightarrow> SelectedAudioTrack p
      | EMediaTrackType_Metadata \<Rightarrow> SelectedMetadataTrack p
      | EMediaTrackType_Video \<Rightarrow> SelectedVideoTrack p
      | EMediaTrackType_Other \<Rightarrow> INDEX_NONE)"

fun metadata_sent :: "effect list \<Rightarrow> string list" where
  "metadata_sent [] = []"
| "metadata_sent (NDIlib_recv_add_connection_metadata h m # es) = m # metadata_sent es"
| "metadata_sent (_ # es) = metadata_sent es"

text \<open>
  Two readings of the sampler's enablement.  \<open>sampler_rule\<close> is the rule of
  \<^verbatim>\<open>UpdateAudioSampler\<close> as an equivalence: the sampler polls a receiver exactly when
  there is one and the pause flag, the audio sink and the audio track selection allow
  it.  \<open>sampler_sound\<close> is the part of it that no method disturbs: an enabled sampler
  polls the player's own receiver, for a bound audio sink and with audio track 0
  selected.
\<close>

definition sampler_rule :: "FNdiMediaPlayer \<Rightarrow> bool" where
  "sampler_rule p =
     (SamplerEnabled (AudioSampler p) =
        (ReceiverInstance p \<noteq> None \<and> \<not> Paused p \<and> AudioSink p \<noteq> None \<and>
         SelectedAudioTrack p = 0))"

definition sampler_sound :: "FNdiMediaPlayer \<Rightarrow> bool" where
  "sampler_sound p =
     (SamplerEnabled (AudioSampler p) \<longrightarrow>
        SamplerReceiverInstance (AudioSampler p) = ReceiverInstance p \<and>
        AudioSink p \<noteq> None \<and> SelectedAudioTrack p = 0)"

text \<open>The initialise calls among the calls made on video sinks.\<close>

definition initialize_calls :: "effect list \<Rightarrow> (sink_ptr \<times> TextureSinkCall) list" where
  "initialize_calls es = filter is_InitializeTextureSink (video_sink_calls es)"

section \<open>Concrete inputs\<close>

text \<open>A player, options and settings on which the theorems below are evaluated.\<close>

definition NoOptions :: IMediaOptions where
  "NoOptions = \<lparr> GetMediaOption = (\<lambda>k d. d), GetMediaOptionString = (\<lambda>k d. d) \<rparr>"

definition ExampleSettings :: UNdiMediaSettings where
  "ExampleSettings =
     \<lparr> ProductName = ''P'', ProductDescription = ''D'', Manufacturer = ''M'',
       VersionName = ''1'', SerialNumber = ''S'', SessionName = ''N'', CustomMetaData = [] \<rparr>"

definition OpenedPlayer :: FNdiMediaPlayer where
  "OpenedPlayer = fst (snd (Open NewPlayer ''ndi://cam'' NoOptions ExampleSettings ''host'' (Some 1)))"

text \<open>Options that ask for 30000/1001 frames per second.\<close>

definition FrameRateOptions :: IMediaOptions where
  "FrameRateOptions =
     \<lparr> GetMediaOption = (\<lambda>k d. if k = FrameRateNOption then 30000
                                else if k = FrameRateDOption then 1001 else d),
       GetMediaOptionString = (\<lambda>k d. d) \<rparr>"

definition NoMetadata :: metadata_capture where
  "NoMetadata = (NDIlib_frame_type_none,
                 \<lparr> metadata_length = 0, metadata_timecode = 0, metadata_p_data = [] \<rparr>)"

text \<open>The opened player with audio sink number 7 bound.\<close>

definition PlayerWithAudioSink :: FNdiMediaPlayer where
  "PlayerWithAudioSink = fst (SetAudioSink OpenedPlayer (Some 7))"

text \<open>Open, bind an audio sink, select audio track 0, then pause.\<close>

definition PauseWhileSampling :: "PlayerCall list" where
  "PauseWhileSampling =
     [Call_Open ''ndi://cam'' NoOptions ExampleSettings ''host'' (Some 1),
      Call_SetAudioSink (Some 7),
      Call_SelectTrack EMediaTrackType_Audio 0,
      Call_SetRate 0]"

text \<open>A stereo frame of 1600 samples at 48 kHz, and a sink that reports no format yet and
  accepts initialisation.\<close>

definition ExampleAudioFrame :: NDIlib_audio_frame_v2_t where
  "ExampleAudioFrame =
     \<lparr> sample_rate = 48000, no_channels = 2, no_samples = 1600, audio_timecode = 123456789 \<rparr>"

definition FreshAudioSink :: AudioSinkReplies where
  "FreshAudioSink =
     \<lparr> GetAudioSinkChannels = 0, GetAudioSinkSampleRate = 0, InitializeAudioSinkResult = True \<rparr>"

text \<open>
  The opened player with video sink number 3 bound, two frames of 1920 by 1080 pixels,
  and three sets of answers of a video sink: one that reports no dimensions and refuses
  to initialise, one that reports none and accepts, and one that reports 1920 by 1080.
\<close>

definition PlayerWithVideoSink :: FNdiMediaPlayer where
  "PlayerWithVideoSink = fst (SetVideoSink OpenedPlayer (Some 3))"

definition ExampleVideoFrame :: NDIlib_video_frame_v2_t where
  "ExampleVideoFrame =
     \<lparr> xres = 1920, yres = 1080, line_stride_in_bytes = 7680, video_timecode = 1000,
       video_p_data = 42 \<rparr>"

definition NextVideoFrame :: NDIlib_video_frame_v2_t where
  "NextVideoFrame = ExampleVideoFrame\<lparr> video_timecode := 2000, video_p_data := 43 \<rparr>"

definition RefusingTextureSink :: TextureSinkReplies where
  "RefusingTextureSink =
     \<lparr> GetTextureSinkFormat = EMediaTextureSinkFormat_CharBGRA,
       GetTextureSinkDimensions = (0, 0),
       InitializeTextureSinkResult = False \<rparr>"

definition FreshTextureSink :: TextureSinkReplies where
  "FreshTextureSink = RefusingTextureSink\<lparr> InitializeTextureSinkResult := True \<rparr>"

definition InitializedTextureSink :: TextureSinkReplies where
  "InitializedTextureSink = FreshTextureSink\<lparr> GetTextureSinkDimensions := (1920, 1080) \<rparr>"

section \<open>Projections of the call list, and what Close leaves behind\<close>

lemma broadcasts_append: "broadcasts (xs @ ys) = broadcasts xs @ broadcasts ys"
  by (induction xs rule: broadcasts.induct) simp_all

lemma audio_sink_calls_append:
  "audio_sink_calls (xs @ ys) = audio_sink_calls xs @ audio_sink_calls ys"
  by (induction xs rule: audio_sink_calls.induct) simp_all

lemma receivers_created_append:
  "receivers_created (xs @ ys) = receivers_created xs @ receivers_created ys"
  by (induction xs rule: receivers_created.induct) simp_all

lemma broadcasts_Close:
  "broadcasts (snd (Close p)) = [EMediaEvent_TracksChanged, EMediaEvent_MediaClosed]"
  by (simp add: Close_def Let_def split: option.splits)

lemma receivers_created_Close: "receivers_created (snd (Close p)) = []"
  by (simp add: Close_def Let_def split: option.splits)

lemma CurrentState_Close: "CurrentState (fst (Close p)) = EMediaState_Closed"
  by (simp add: Close_def Let_def UpdateAudioSampler_def)

lemma ReceiverInstance_Close: "ReceiverInstance (fst (Close p)) = None"
  by (simp add: Close_def Let_def UpdateAudioSampler_def)

lemma OpenedPlayer_eq:
  "OpenedPlayer = NewPlayer\<lparr> ReceiverInstance := Some 1, CurrentUrl := ''ndi://cam'',
                             VideoSinkFormat := EMediaTextureSinkFormat_CharBGRA \<rparr>"
  by (simp add: OpenedPlayer_def Open_def Close_def NewPlayer_def UpdateAudioSampler_def
      SetReceiverInstance_def StartsWith_def ToLower_def Let_def NoOptions_def to_int32_def
      NDIlib_recv_color_format_e_BGRX_BGRA_def)

lemma broadcasts_CaptureMetadataFrame: "broadcasts (CaptureMetadataFrame p reply) = []"
  by (simp add: CaptureMetadataFrame_def split: prod.splits option.splits)

lemma audio_sink_calls_CaptureMetadataFrame: "audio_sink_calls (CaptureMetadataFrame p reply) = []"
  by (simp add: CaptureMetadataFrame_def split: prod.splits option.splits)

lemma PlayerWithAudioSink_eq:
  "PlayerWithAudioSink = OpenedPlayer\<lparr>AudioSink := Some 7\<rparr>"
  by (simp add: PlayerWithAudioSink_def SetAudioSink_def OpenedPlayer_eq NewPlayer_def
      UpdateAudioSampler_def SetReceiverInstance_def INDEX_NONE_def)

lemma StartsWith_ignores_case:
  "StartsWith ''NDI://cam'' ''ndi://'' \<and> StartsWith ''ndi://cam'' ''ndi://'' \<and>
   \<not> StartsWith ''ndi:/'' ''ndi://'' \<and> \<not> StartsWith ''http://cam'' ''ndi://''"
  by (simp add: StartsWith_def ToLower_def)

section \<open>Open: locators, notifications, format hints\<close>

text \<open>
  C3.  For every locator that is empty or does not start with the scheme prefix
  \<^verbatim>\<open>ndi://\<close> (compared as \<^verbatim>\<open>FString::StartsWith\<close> compares, without regard to case),
  \<^verbatim>\<open>Open\<close> returns failure, the playback state afterwards is Closed, the player holds no
  receiver and \<^verbatim>\<open>NDIlib_recv_create_v2\<close> was not called.
\<close>

theorem Open_rejects_bad_locator:
  assumes "Url = [] \<or> \<not> StartsWith Url ''ndi://''"
  shows "\<not> fst (Open p Url Options Settings ComputerName created) \<and>
         CurrentState (fst (snd (Open p Url Options Settings ComputerName created))) =
           EMediaState_Closed \<and>
         ReceiverInstance (fst (snd (Open p Url Options Settings ComputerName created))) = None \<and>
         receivers_created (snd (snd (Open p Url Options Settings ComputerName created))) = []"
  using assms
  by (auto simp add: Open_def CurrentState_Close ReceiverInstance_Close receivers_created_Close
      split: prod.splits)

text \<open>The same on a player that holds a connection, with an \<^verbatim>\<open>http\<close> locator.\<close>

theorem Open_rejects_bad_locator_witness:
  "(''http://cam'' = [] \<or> \<not> StartsWith ''http://cam'' ''ndi://'') \<and>
   \<not> fst (Open OpenedPlayer ''http://cam'' NoOptions ExampleSettings ''host'' (Some 2)) \<and>
   CurrentState
     (fst (snd (Open OpenedPlayer ''http://cam'' NoOptions ExampleSettings ''host'' (Some 2)))) =
     EMediaState_Closed \<and>
   ReceiverInstance
     (fst (snd (Open OpenedPlayer ''http://cam'' NoOptions ExampleSettings ''host'' (Some 2)))) =
     None \<and>
   receivers_created
     (snd (snd (Open OpenedPlayer ''http://cam'' NoOptions ExampleSettings ''host'' (Some 2)))) =
     []"
proof -
  have h: "''http://cam'' = [] \<or> \<not> StartsWith ''http://cam'' ''ndi://''"
    by (simp add: StartsWith_def ToLower_def)
  from Open_rejects_bad_locator [OF h, of OpenedPlayer NoOptions ExampleSettings "''host''" "Some 2"] h
  show ?thesis by blast
qed

text \<open>
  C2 (as amended).  \<^verbatim>\<open>Open\<close> begins with \<^verbatim>\<open>Close()\<close>, which broadcasts on its own.  For
  every call to \<^verbatim>\<open>Open\<close> that succeeds, exactly four notifications are broadcast, in order:
  TracksChanged and MediaClosed by that initial \<^verbatim>\<open>Close\<close>, then TracksChanged and
  MediaOpened by the rest of \<^verbatim>\<open>Open\<close>.
\<close>

theorem Open_success_broadcasts:
  assumes "Open p Url Options Settings ComputerName created = (True, p', es)"
  shows "\<exists>rest. es = snd (Close p) @ rest \<and>
           broadcasts (snd (Close p)) = [EMediaEvent_TracksChanged, EMediaEvent_MediaClosed] \<and>
           broadcasts rest = [EMediaEvent_TracksChanged, EMediaEvent_MediaOpened] \<and>
           broadcasts es = [EMediaEvent_TracksChanged, EMediaEvent_MediaClosed,
                            EMediaEvent_TracksChanged, EMediaEvent_MediaOpened]"
proof -
  obtain p0 e0 where c: "Close p = (p0, e0)" by (cases "Close p")
  have b0: "broadcasts e0 = [EMediaEvent_TracksChanged, EMediaEvent_MediaClosed]"
    using broadcasts_Close [of p] c by simp
  from assms c obtain h where cr: "created = Some h"
    by (cases created) (auto simp add: Open_def Let_def split: if_splits)
  define rest where "rest = NDIlib_recv_create_v2
      \<lparr> source_to_connect_to = SourceDescriptor (RightChop 6 Url) ComputerName,
        color_format = (let Requested = to_int32 (GetMediaOption Options ColorFormatOption 0) in
                (if Requested = NDIlib_recv_color_format_e_BGRX_BGRA then Requested
                 else if Requested = NDIlib_recv_color_format_e_UYVY_BGRA then Requested
                 else NDIlib_recv_color_format_e_UYVY_BGRA)),
        bandwidth = to_int32 (GetMediaOption Options BandwidthOption NDIlib_recv_bandwidth_highest),
        allow_video_fields = True \<rparr> #
      SendMetadata h (ProductMetadata Settings) @
      (if AudioFormatString Options \<noteq> [] \<or> VideoFormatString Options \<noteq> []
       then SendMetadata h (FormatMetadata (AudioFormatString Options) (VideoFormatString Options))
       else []) @
      (if TrimTrailing (Trim (CustomMetaData Settings)) \<noteq> []
       then SendMetadata h (TrimTrailing (Trim (CustomMetaData Settings))) else []) @
      [Broadcast EMediaEvent_TracksChanged, Broadcast EMediaEvent_MediaOpened]"
  have es: "es = e0 @ rest"
    using assms c cr unfolding rest_def
    by (auto simp add: Open_def Let_def NDIlib_recv_color_format_e_BGRX_BGRA_def
        NDIlib_recv_color_format_e_UYVY_BGRA_def split: if_splits)
  have br: "broadcasts rest = [EMediaEvent_TracksChanged, EMediaEvent_MediaOpened]"
    unfolding rest_def by (simp add: broadcasts_append SendMetadata_def)
  show ?thesis
    using es b0 br c by (intro exI [of _ rest]) (simp add: broadcasts_append)
qed

theorem Open_success_broadcasts_witness:
  "Open NewPlayer ''ndi://cam'' NoOptions ExampleSettings ''host'' (Some 1) =
     (True, OpenedPlayer,
      snd (snd (Open NewPlayer ''ndi://cam'' NoOptions ExampleSettings ''host'' (Some 1)))) \<and>
   (\<exists>rest. snd (snd (Open NewPlayer ''ndi://cam'' NoOptions ExampleSettings ''host'' (Some 1))) =
             snd (Close NewPlayer) @ rest \<and>
           broadcasts (snd (Close NewPlayer)) = [EMediaEvent_TracksChanged, EMediaEvent_MediaClosed] \<and>
           broadcasts rest = [EMediaEvent_TracksChanged, EMediaEvent_MediaOpened] \<and>
           broadcasts (snd (snd (Open NewPlayer ''ndi://cam'' NoOptions ExampleSettings ''host'' (Some 1)))) =
             [EMediaEvent_TracksChanged, EMediaEvent_MediaClosed,
              EMediaEvent_TracksChanged, EMediaEvent_MediaOpened])"
proof -
  have h: "Open NewPlayer ''ndi://cam'' NoOptions ExampleSettings ''host'' (Some 1) =
     (True, OpenedPlayer,
      snd (snd (Open NewPlayer ''ndi://cam'' NoOptions ExampleSettings ''host'' (Some 1))))"
    by (simp add: OpenedPlayer_def Open_def StartsWith_def ToLower_def Let_def split: prod.splits)
  from Open_success_broadcasts [OF h] h show ?thesis by blast
qed

text \<open>The claim as first stated (exactly two notifications during the call) fails on a
  fresh player and a valid locator: four are broadcast.\<close>

theorem Open_broadcasts_counterexample:
  "fst (Open NewPlayer ''ndi://cam'' NoOptions ExampleSettings ''host'' (Some 1)) \<and>
   broadcasts (snd (snd (Open NewPlayer ''ndi://cam'' NoOptions ExampleSettings ''host'' (Some 1)))) =
     [EMediaEvent_TracksChanged, EMediaEvent_MediaClosed,
      EMediaEvent_TracksChanged, EMediaEvent_MediaOpened] \<and>
   broadcasts (snd (snd (Open NewPlayer ''ndi://cam'' NoOptions ExampleSettings ''host'' (Some 1)))) \<noteq>
     [EMediaEvent_TracksChanged, EMediaEvent_MediaOpened]"
  by (simp add: Open_def Close_def NewPlayer_def StartsWith_def ToLower_def Let_def
      NoOptions_def ExampleSettings_def SendMetadata_def AudioFormatString_def
      VideoFormatString_def Trim_def TrimTrailing_def broadcasts_append)

lemma decimal_1001: "decimal 1001 = ''1001''"
  by code_simp

text \<open>
  C9.  The claim asks that \<^verbatim>\<open>frame_rate_n\<close> be read from the numerator key.  The code
  looks up \<^verbatim>\<open>NdiMedia::FrameRateDOption\<close> for both values: with a numerator hint of 30000
  and a denominator hint of 1001 the payload sent by a successful \<^verbatim>\<open>Open\<close> carries
  \<^verbatim>\<open>frame_rate_n="1001"\<close>.
\<close>

theorem Open_frame_rate_n_reads_denominator_key:
  "GetMediaOption FrameRateOptions FrameRateNOption 0 = 30000 \<and>
   GetMediaOption FrameRateOptions FrameRateDOption 0 = 1001 \<and>
   fst (Open NewPlayer ''ndi://cam'' FrameRateOptions ExampleSettings ''host'' (Some 1)) \<and>
   metadata_sent (snd (snd (Open NewPlayer ''ndi://cam'' FrameRateOptions ExampleSettings ''host'' (Some 1)))) =
     [ProductMetadata ExampleSettings,
      ''<ndi_format><audio_format  /><video_format  frame_rate_d='' @ dquote @ ''1001'' @ dquote @
      '' frame_rate_n='' @ dquote @ ''1001'' @ dquote @ '' /></ndi_format>'']"
  by (simp add: Open_def Close_def NewPlayer_def StartsWith_def ToLower_def Let_def
      FrameRateOptions_def ExampleSettings_def SendMetadata_def AudioFormatString_def
      VideoFormatString_def Trim_def TrimTrailing_def FormatMetadata_def attribute_def
      Printf_i_def to_int32_def decimal_1001 dquote_def)

text \<open>Read off that result: two payloads were sent, and the second one does not carry
  the numerator 30000 that the options supply.\<close>

theorem Open_frame_rate_n_reads_denominator_key_witness:
  "GetMediaOption FrameRateOptions FrameRateNOption 0 = 30000 \<and>
   length (metadata_sent (snd (snd (Open NewPlayer ''ndi://cam'' FrameRateOptions ExampleSettings
                                      ''host'' (Some 1))))) = 2 \<and>
   metadata_sent (snd (snd (Open NewPlayer ''ndi://cam'' FrameRateOptions ExampleSettings
                              ''host'' (Some 1)))) ! 1 \<noteq>
     ''<ndi_format><audio_format  /><video_format  frame_rate_d='' @ dquote @ ''1001'' @ dquote @
     '' frame_rate_n='' @ dquote @ ''30000'' @ dquote @ '' /></ndi_format>''"
  using Open_frame_rate_n_reads_denominator_key by simp

text \<open>In general the numerator key has no influence on the video format hints.\<close>

lemma VideoFormatString_ignores_FrameRateN:
  assumes "\<And>k d. k \<noteq> FrameRateNOption \<Longrightarrow> GetMediaOption A k d = GetMediaOption B k d"
    and "GetMediaOptionString A = GetMediaOptionString B"
  shows "VideoFormatString A = VideoFormatString B"
  using assms by (simp add: VideoFormatString_def)

section \<open>Close\<close>

text \<open>
  C8 (as amended).  \<^verbatim>\<open>Close\<close> has no test for "already closed".  On a player that is
  already closed (one just closed, or one never opened) it leaves every field of the
  player unchanged and calls nothing on the receiver library, and it broadcasts
  TracksChanged and MediaClosed once more.
\<close>

theorem Close_on_closed_player:
  "Close (fst (Close p)) =
     (fst (Close p), [Broadcast EMediaEvent_TracksChanged, Broadcast EMediaEvent_MediaClosed]) \<and>
   Close NewPlayer =
     (NewPlayer, [Broadcast EMediaEvent_TracksChanged, Broadcast EMediaEvent_MediaClosed])"
  by (simp add: Close_def NewPlayer_def UpdateAudioSampler_def SetReceiverInstance_def Let_def
      INDEX_NONE_def FIntPoint_ZeroValue_def)

theorem Close_on_closed_player_witness:
  "Close (fst (Close OpenedPlayer)) =
     (fst (Close OpenedPlayer),
      [Broadcast EMediaEvent_TracksChanged, Broadcast EMediaEvent_MediaClosed])"
  using Close_on_closed_player [of OpenedPlayer] by simp

text \<open>The claim as first stated (no notifications from a second \<^verbatim>\<open>Close\<close>) fails on a
  player that was never opened and on one that was just closed.\<close>

theorem Close_twice_counterexample:
  "CurrentState NewPlayer = EMediaState_Closed \<and> ReceiverInstance NewPlayer = None \<and>
   broadcasts (snd (Close NewPlayer)) = [EMediaEvent_TracksChanged, EMediaEvent_MediaClosed] \<and>
   broadcasts (snd (Close (fst (Close OpenedPlayer)))) =
     [EMediaEvent_TracksChanged, EMediaEvent_MediaClosed]"
  by (simp add: broadcasts_Close NewPlayer_def)

section \<open>Track selection\<close>

text \<open>
  C10.  While a connection exists, \<^verbatim>\<open>GetSelectedTrack\<close> returns track 0 for the audio,
  video and metadata kinds whatever selection is recorded, also right after a successful
  \<^verbatim>\<open>SelectTrack(kind, INDEX_NONE)\<close> that recorded "no track"; without a connection it
  returns \<^verbatim>\<open>INDEX_NONE\<close> for every kind, also after track 0 was selected.
\<close>

theorem GetSelectedTrack_ignores_selection:
  assumes "TrackType \<in> {EMediaTrackType_Audio, EMediaTrackType_Metadata, EMediaTrackType_Video}"
  shows "(ReceiverInstance p \<noteq> None \<longrightarrow>
            GetSelectedTrack p TrackType = 0 \<and>
            fst (SelectTrack p TrackType INDEX_NONE) \<and>
            RecordedTrack (snd (SelectTrack p TrackType INDEX_NONE)) TrackType = INDEX_NONE \<and>
            GetSelectedTrack (snd (SelectTrack p TrackType INDEX_NONE)) TrackType = 0) \<and>
         (ReceiverInstance p = None \<longrightarrow>
            GetSelectedTrack p TrackType = INDEX_NONE \<and>
            GetSelectedTrack p EMediaTrackType_Other = INDEX_NONE \<and>
            GetSelectedTrack (snd (SelectTrack p TrackType 0)) TrackType = INDEX_NONE)"
  using assms
  by (auto simp add: GetSelectedTrack_def SelectTrack_def RecordedTrack_def
      UpdateAudioSampler_def INDEX_NONE_def Let_def)

theorem GetSelectedTrack_ignores_selection_witness:
  "EMediaTrackType_Audio \<in> {EMediaTrackType_Audio, EMediaTrackType_Metadata, EMediaTrackType_Video} \<and>
   ReceiverInstance OpenedPlayer \<noteq> None \<and>
   ReceiverInstance NewPlayer = None \<and>
   GetSelectedTrack OpenedPlayer EMediaTrackType_Audio = 0 \<and>
   RecordedTrack (snd (SelectTrack OpenedPlayer EMediaTrackType_Audio INDEX_NONE))
     EMediaTrackType_Audio = INDEX_NONE \<and>
   GetSelectedTrack (snd (SelectTrack OpenedPlayer EMediaTrackType_Audio INDEX_NONE))
     EMediaTrackType_Audio = 0 \<and>
   GetSelectedTrack NewPlayer EMediaTrackType_Audio = INDEX_NONE"
  using GetSelectedTrack_ignores_selection [of EMediaTrackType_Audio OpenedPlayer]
    GetSelectedTrack_ignores_selection [of EMediaTrackType_Audio NewPlayer]
  by (simp add: OpenedPlayer_eq NewPlayer_def)

section \<open>TickPlayer\<close>

text \<open>
  C1 (as amended).  For every call to \<^verbatim>\<open>TickPlayer\<close> while a connection exists, the target
  state is Paused if the pause flag is set, else Playing if the receiver reports a
  positive connection count, else Preparing.  When the target differs from the current
  state and an audio sink is bound, the call sets the current state to the target,
  recomputes the audio sampler's enablement and broadcasts exactly one notification:
  PlaybackResumed when the target is Playing, with the audio sink resumed, and
  PlaybackSuspended otherwise, with the audio sink paused and then flushed.  When the
  target equals the current state or no audio sink is bound, the player is left as it
  was, nothing is broadcast and no audio sink hook is called.
\<close>

theorem TickPlayer_state_transition:
  assumes "ReceiverInstance p \<noteq> None"
  shows "let State = (if Paused p then EMediaState_Paused
                      else if no_connections > 0 then EMediaState_Playing
                      else EMediaState_Preparing);
             p' = fst (TickPlayer p no_connections reply);
             es = snd (TickPlayer p no_connections reply)
         in (State \<noteq> CurrentState p \<and> AudioSink p = Some s \<longrightarrow>
               CurrentState p' = State \<and>
               p' = UpdateAudioSampler (p\<lparr>CurrentState := State\<rparr>) \<and>
               broadcasts es = [if State = EMediaState_Playing
                                then EMediaEvent_PlaybackResumed
                                else EMediaEvent_PlaybackSuspended] \<and>
               audio_sink_calls es =
                 (if State = EMediaState_Playing
                  then [(s, ResumeAudioSink)]
                  else [(s, PauseAudioSink), (s, FlushAudioSink)])) \<and>
            (State = CurrentState p \<or> AudioSink p = None \<longrightarrow>
               p' = p \<and> broadcasts es = [] \<and> audio_sink_calls es = [])"
  using assms
  by (auto simp add: TickPlayer_def TargetState_def Let_def UpdateAudioSampler_def
      broadcasts_append audio_sink_calls_append broadcasts_CaptureMetadataFrame
      audio_sink_calls_CaptureMetadataFrame)

theorem TickPlayer_state_transition_witness:
  "ReceiverInstance PlayerWithAudioSink \<noteq> None \<and>
   CurrentState PlayerWithAudioSink = EMediaState_Closed \<and>
   CurrentState (fst (TickPlayer PlayerWithAudioSink 1 NoMetadata)) = EMediaState_Playing \<and>
   broadcasts (snd (TickPlayer PlayerWithAudioSink 1 NoMetadata)) = [EMediaEvent_PlaybackResumed] \<and>
   audio_sink_calls (snd (TickPlayer PlayerWithAudioSink 1 NoMetadata)) = [(7, ResumeAudioSink)]"
proof -
  have h: "ReceiverInstance PlayerWithAudioSink \<noteq> None"
    and c: "CurrentState PlayerWithAudioSink = EMediaState_Closed"
    and a: "AudioSink PlayerWithAudioSink = Some 7"
    and z: "\<not> Paused PlayerWithAudioSink"
    by (simp_all add: PlayerWithAudioSink_eq OpenedPlayer_eq NewPlayer_def)
  from TickPlayer_state_transition [OF h, where no_connections = 1 and s = 7 and reply = NoMetadata] h c a z
  show ?thesis by (simp add: Let_def UpdateAudioSampler_def)
qed

text \<open>
  The claim as first stated fails in two places.  With a connection and one downstream
  connection but no audio sink bound, the target (Playing) differs from the current
  state (Closed) and the call changes nothing and broadcasts nothing.  With an audio
  sink bound and no downstream connection, the call moves from Closed to Preparing and
  broadcasts PlaybackSuspended, although the player was not Playing before.
\<close>

theorem TickPlayer_counterexample:
  "ReceiverInstance OpenedPlayer = Some 1 \<and>
   AudioSink OpenedPlayer = None \<and>
   CurrentState OpenedPlayer = EMediaState_Closed \<and>
   TargetState OpenedPlayer 1 = EMediaState_Playing \<and>
   CurrentState (fst (TickPlayer OpenedPlayer 1 NoMetadata)) = EMediaState_Closed \<and>
   broadcasts (snd (TickPlayer OpenedPlayer 1 NoMetadata)) = [] \<and>
   CurrentState PlayerWithAudioSink = EMediaState_Closed \<and>
   CurrentState (fst (TickPlayer PlayerWithAudioSink 0 NoMetadata)) = EMediaState_Preparing \<and>
   broadcasts (snd (TickPlayer PlayerWithAudioSink 0 NoMetadata)) = [EMediaEvent_PlaybackSuspended]"
  by (simp add: PlayerWithAudioSink_eq OpenedPlayer_eq NewPlayer_def TickPlayer_def
      TargetState_def Let_def UpdateAudioSampler_def)

section \<open>The audio sampler's enablement\<close>

text \<open>Every method keeps \<open>sampler_sound\<close>: the fields it speaks of change only in
  methods that end with \<^verbatim>\<open>UpdateAudioSampler\<close>, or in \<^verbatim>\<open>Open\<close> after its \<^verbatim>\<open>Close\<close> has
  disabled the sampler.\<close>

lemma sampler_sound_Close: "sampler_sound (fst (Close p))"
  by (simp add: sampler_sound_def Close_def UpdateAudioSampler_def SetReceiverInstance_def
      SamplerEnabled_def Let_def INDEX_NONE_def)

lemma sampler_disabled_Close: "\<not> SamplerEnabled (AudioSampler (fst (Close p)))"
  by (simp add: Close_def UpdateAudioSampler_def SetReceiverInstance_def
      SamplerEnabled_def Let_def INDEX_NONE_def)

lemma sampler_sound_Open:
  "sampler_sound (fst (snd (Open p Url Options Settings ComputerName created)))"
proof -
  obtain p0 e0 where c: "Close p = (p0, e0)" by (cases "Close p")
  have d: "\<not> SamplerEnabled (AudioSampler p0)"
    using sampler_disabled_Close [of p] c by simp
  show ?thesis
    using c d
    by (auto simp add: Open_def Let_def sampler_sound_def split: option.splits)
qed

lemma sampler_sound_TickPlayer:
  "sampler_sound p \<Longrightarrow> sampler_sound (fst (TickPlayer p n reply))"
  by (auto simp add: TickPlayer_def Let_def sampler_sound_def UpdateAudioSampler_def
      SetReceiverInstance_def SamplerEnabled_def split: if_splits)

lemma sampler_sound_TickVideo:
  "sampler_sound p \<Longrightarrow> sampler_sound (fst (TickVideo p reply sink))"
  by (auto simp add: TickVideo_def CaptureVideoFrame_def ProcessVideoFrame_def Let_def
      sampler_sound_def split: prod.splits option.splits if_splits)

lemma sampler_sound_SetRate: "sampler_sound p \<Longrightarrow> sampler_sound (snd (SetRate p Rate))"
  by (auto simp add: SetRate_def sampler_sound_def)

lemma sampler_sound_SetAudioSink:
  "sampler_sound p \<Longrightarrow> sampler_sound (fst (SetAudioSink p Sink))"
  by (auto simp add: SetAudioSink_def sampler_sound_def UpdateAudioSampler_def
      SetReceiverInstance_def SamplerEnabled_def Let_def split: if_splits)

lemma sampler_sound_SetMetadataSink:
  "sampler_sound p \<Longrightarrow> sampler_sound (fst (SetMetadataSink p Sink))"
  by (auto simp add: SetMetadataSink_def sampler_sound_def)

lemma sampler_sound_SetVideoSink:
  "sampler_sound p \<Longrightarrow> sampler_sound (fst (SetVideoSink p Sink))"
  by (auto simp add: SetVideoSink_def sampler_sound_def)

lemma sampler_sound_SelectTrack:
  "sampler_sound p \<Longrightarrow> sampler_sound (snd (SelectTrack p TrackType TrackIndex))"
  by (auto simp add: SelectTrack_def sampler_sound_def UpdateAudioSampler_def
      SetReceiverInstance_def SamplerEnabled_def Let_def split: if_splits)

lemma sampler_sound_HandleAudioSamplerSample:
  "sampler_sound p \<Longrightarrow> sampler_sound (fst (HandleAudioSamplerSample p AudioFrame sink))"
  by (auto simp add: HandleAudioSamplerSample_def ProcessAudioFrame_def Let_def
      sampler_sound_def split: option.splits if_splits)

lemma sampler_sound_step: "sampler_sound p \<Longrightarrow> sampler_sound (step p c)"
  by (cases c)
    (simp_all add: sampler_sound_Close sampler_sound_Open sampler_sound_TickPlayer
      sampler_sound_TickVideo sampler_sound_SetRate sampler_sound_SetAudioSink
      sampler_sound_SetMetadataSink sampler_sound_SetVideoSink sampler_sound_SelectTrack
      sampler_sound_HandleAudioSamplerSample)

lemma sampler_sound_run: "sampler_sound p \<Longrightarrow> sampler_sound (run p cs)"
  by (induction cs arbitrary: p) (simp_all add: sampler_sound_step)

lemma sampler_sound_NewPlayer: "sampler_sound NewPlayer"
  by (simp add: sampler_sound_def NewPlayer_def SamplerEnabled_def)

lemma sampler_rule_UpdateAudioSampler: "sampler_rule (UpdateAudioSampler p)"
  by (auto simp add: sampler_rule_def UpdateAudioSampler_def SetReceiverInstance_def
      SamplerEnabled_def Let_def)

lemma run_PauseWhileSampling:
  "run NewPlayer PauseWhileSampling =
     OpenedPlayer\<lparr> AudioSink := Some 7, SelectedAudioTrack := 0,
                    AudioSampler := \<lparr> SamplerReceiverInstance = Some 1 \<rparr>, Paused := True \<rparr>"
proof -
  have "run NewPlayer PauseWhileSampling =
          snd (SetRate (snd (SelectTrack (fst (SetAudioSink OpenedPlayer (Some 7)))
                               EMediaTrackType_Audio 0)) 0)"
    by (simp add: PauseWhileSampling_def OpenedPlayer_def)
  also have "\<dots> = OpenedPlayer\<lparr> AudioSink := Some 7, SelectedAudioTrack := 0,
                    AudioSampler := \<lparr> SamplerReceiverInstance = Some 1 \<rparr>, Paused := True \<rparr>"
    by (simp add: SetAudioSink_def SelectTrack_def SetRate_def UpdateAudioSampler_def
        SetReceiverInstance_def INDEX_NONE_def OpenedPlayer_eq NewPlayer_def)
  finally show ?thesis .
qed

text \<open>
  C4 (as amended).  Right after each recomputation, the audio sampling activity is
  enabled if and only if a connection exists, the pause flag is not set, an audio sink
  is bound and the audio track selection is track 0; \<^verbatim>\<open>Close\<close>, a rebinding
  \<^verbatim>\<open>SetAudioSink\<close>, an accepted \<^verbatim>\<open>SelectTrack\<close> on the audio kind and a state-changing
  \<^verbatim>\<open>TickPlayer\<close> recompute it, \<^verbatim>\<open>SetRate\<close> does not.  At every point of every sequence of
  calls on a new player, an enabled sampling activity polls the player's current
  receiver, an audio sink is bound and the audio track selection is track 0.
  \<^verbatim>\<open>SelectTrack(Audio, 1)\<close> returns false with no state change, and
  \<^verbatim>\<open>SelectTrack(Audio, INDEX_NONE)\<close> returns true and disables the sampling activity.
\<close>

theorem sampler_enablement:
  "sampler_rule (UpdateAudioSampler p) \<and>
   sampler_rule (fst (Close p)) \<and>
   (Sink \<noteq> AudioSink p \<longrightarrow> sampler_rule (fst (SetAudioSink p Sink))) \<and>
   (TrackIndex = 0 \<or> TrackIndex = INDEX_NONE \<longrightarrow>
      sampler_rule (snd (SelectTrack p EMediaTrackType_Audio TrackIndex))) \<and>
   (ReceiverInstance p \<noteq> None \<and> AudioSink p \<noteq> None \<and>
    TargetState p no_connections \<noteq> CurrentState p \<longrightarrow>
      sampler_rule (fst (TickPlayer p no_connections reply))) \<and>
   sampler_sound (run NewPlayer cs) \<and>
   SelectTrack p EMediaTrackType_Audio 1 = (False, p) \<and>
   fst (SelectTrack p EMediaTrackType_Audio INDEX_NONE) \<and>
   \<not> SamplerEnabled (AudioSampler (snd (SelectTrack p EMediaTrackType_Audio INDEX_NONE)))"
proof -
  have 1: "sampler_rule (UpdateAudioSampler p)" by (rule sampler_rule_UpdateAudioSampler)
  have 2: "sampler_rule (fst (Close p))"
    by (simp add: sampler_rule_def Close_def UpdateAudioSampler_def SetReceiverInstance_def
        SamplerEnabled_def Let_def INDEX_NONE_def)
  have 3: "Sink \<noteq> AudioSink p \<longrightarrow> sampler_rule (fst (SetAudioSink p Sink))"
    by (simp add: SetAudioSink_def sampler_rule_UpdateAudioSampler)
  have 4: "TrackIndex = 0 \<or> TrackIndex = INDEX_NONE \<longrightarrow>
      sampler_rule (snd (SelectTrack p EMediaTrackType_Audio TrackIndex))"
    by (auto simp add: SelectTrack_def sampler_rule_UpdateAudioSampler)
  have 5: "ReceiverInstance p \<noteq> None \<and> AudioSink p \<noteq> None \<and>
    TargetState p no_connections \<noteq> CurrentState p \<longrightarrow>
      sampler_rule (fst (TickPlayer p no_connections reply))"
    by (simp add: TickPlayer_def Let_def sampler_rule_UpdateAudioSampler)
  have 6: "sampler_sound (run NewPlayer cs)"
    by (rule sampler_sound_run [OF sampler_sound_NewPlayer])
  have 7: "SelectTrack p EMediaTrackType_Audio 1 = (False, p)"
    by (simp add: SelectTrack_def INDEX_NONE_def)
  have 8: "fst (SelectTrack p EMediaTrackType_Audio INDEX_NONE)"
    by (simp add: SelectTrack_def INDEX_NONE_def)
  have 9: "\<not> SamplerEnabled (AudioSampler (snd (SelectTrack p EMediaTrackType_Audio INDEX_NONE)))"
    by (simp add: SelectTrack_def INDEX_NONE_def UpdateAudioSampler_def SetReceiverInstance_def
        SamplerEnabled_def)
  show ?thesis by (intro conjI 1 2 3 4 5 6 7 8 9)
qed

theorem sampler_enablement_witness:
  "sampler_rule (fst (SetAudioSink OpenedPlayer (Some 7))) \<and>
   sampler_sound (run NewPlayer PauseWhileSampling) \<and>
   SamplerEnabled (AudioSampler (run NewPlayer PauseWhileSampling)) \<and>
   SelectTrack PlayerWithAudioSink EMediaTrackType_Audio 1 = (False, PlayerWithAudioSink) \<and>
   \<not> SamplerEnabled (AudioSampler (snd (SelectTrack (run NewPlayer PauseWhileSampling)
        EMediaTrackType_Audio INDEX_NONE)))"
proof -
  have a: "Some 7 \<noteq> AudioSink OpenedPlayer"
    by (simp add: OpenedPlayer_eq NewPlayer_def)
  have e: "SamplerEnabled (AudioSampler (run NewPlayer PauseWhileSampling))"
    by (simp add: run_PauseWhileSampling SamplerEnabled_def)
  from sampler_enablement [where p = OpenedPlayer and Sink = "Some 7" and cs = PauseWhileSampling]
    sampler_enablement [where p = PlayerWithAudioSink]
    sampler_enablement [where p = "run NewPlayer PauseWhileSampling"]
    a e
  show ?thesis by simp
qed

text \<open>
  The claim as first stated fails after \<^verbatim>\<open>SetRate(0)\<close>: the pause flag is set at once,
  the sampler stays enabled until something recomputes it.
\<close>

theorem sampler_enablement_counterexample:
  "SamplerEnabled (AudioSampler (run NewPlayer PauseWhileSampling)) \<and>
   Paused (run NewPlayer PauseWhileSampling) \<and>
   \<not> (SamplerEnabled (AudioSampler (run NewPlayer PauseWhileSampling)) \<longleftrightarrow>
        \<not> Paused (run NewPlayer PauseWhileSampling) \<and>
        AudioSink (run NewPlayer PauseWhileSampling) \<noteq> None \<and>
        SelectedAudioTrack (run NewPlayer PauseWhileSampling) = 0)"
  by (simp add: run_PauseWhileSampling SamplerEnabled_def)

section \<open>The audio frame path\<close>

text \<open>
  C5.  For every incoming audio frame with N samples and C channels, the cached channel
  count and sample rate are those of the frame afterwards, whether or not an audio sink
  is bound.  When a sink is bound and its initialisation succeeds (or is not needed,
  the sink reporting the frame's format already), the sink's play hook receives a
  buffer length of exactly N * C * 2 bytes together with the frame's timecode, after
  the initialise call if there was one.  N and C are counts, and N * C lies within the
  range of \<^verbatim>\<open>int\<close>, in which the source computes it.
\<close>

theorem ProcessAudioFrame_forwards:
  "LastAudioChannels (fst (ProcessAudioFrame p AudioFrame sink)) = no_channels AudioFrame \<and>
   LastAudioSampleRate (fst (ProcessAudioFrame p AudioFrame sink)) = sample_rate AudioFrame \<and>
   (AudioSink p = Some s \<and>
    0 \<le> no_samples AudioFrame \<and> 0 \<le> no_channels AudioFrame \<and>
    no_samples AudioFrame * no_channels AudioFrame < 2147483648 \<and>
    (InitializeAudioSinkResult sink \<or>
     GetAudioSinkChannels sink = no_channels AudioFrame \<and>
     GetAudioSinkSampleRate sink = sample_rate AudioFrame) \<longrightarrow>
      audio_sink_calls (snd (ProcessAudioFrame p AudioFrame sink)) =
        (if GetAudioSinkChannels sink = no_channels AudioFrame \<and>
            GetAudioSinkSampleRate sink = sample_rate AudioFrame
         then []
         else [(s, InitializeAudioSink (no_channels AudioFrame) (sample_rate AudioFrame))]) @
        [(s, PlayAudioSink (nat (no_samples AudioFrame) * nat (no_channels AudioFrame) * 2)
               (audio_timecode AudioFrame))])"
proof -
  have t: "0 \<le> no_samples AudioFrame \<Longrightarrow> 0 \<le> no_channels AudioFrame \<Longrightarrow>
           no_samples AudioFrame * no_channels AudioFrame < 2147483648 \<Longrightarrow>
           TotalSamples AudioFrame * sizeof_int16 =
             nat (no_samples AudioFrame) * nat (no_channels AudioFrame) * 2"
    by (simp add: TotalSamples_def sizeof_int16_def nat_mult_distrib)
  have 1: "LastAudioChannels (fst (ProcessAudioFrame p AudioFrame sink)) = no_channels AudioFrame"
    by (simp add: ProcessAudioFrame_def Let_def split: option.splits)
  have 2: "LastAudioSampleRate (fst (ProcessAudioFrame p AudioFrame sink)) = sample_rate AudioFrame"
    by (simp add: ProcessAudioFrame_def Let_def split: option.splits)
  show ?thesis
    using t by (auto simp add: 1 2) (simp_all add: ProcessAudioFrame_def Let_def)
qed

theorem ProcessAudioFrame_forwards_witness:
  "AudioSink PlayerWithAudioSink = Some 7 \<and>
   LastAudioChannels (fst (ProcessAudioFrame PlayerWithAudioSink ExampleAudioFrame FreshAudioSink)) = 2 \<and>
   LastAudioSampleRate (fst (ProcessAudioFrame PlayerWithAudioSink ExampleAudioFrame FreshAudioSink)) = 48000 \<and>
   LastAudioChannels (fst (ProcessAudioFrame OpenedPlayer ExampleAudioFrame FreshAudioSink)) = 2 \<and>
   audio_sink_calls (snd (ProcessAudioFrame PlayerWithAudioSink ExampleAudioFrame FreshAudioSink)) =
     [(7, InitializeAudioSink 2 48000), (7, PlayAudioSink 6400 123456789)]"
proof -
  have a: "AudioSink PlayerWithAudioSink = Some 7"
    by (simp add: PlayerWithAudioSink_eq)
  from ProcessAudioFrame_forwards [where p = PlayerWithAudioSink and AudioFrame = ExampleAudioFrame
      and sink = FreshAudioSink and s = 7]
    ProcessAudioFrame_forwards [where p = OpenedPlayer and AudioFrame = ExampleAudioFrame
      and sink = FreshAudioSink and s = 7] a
  show ?thesis
    by (simp add: ExampleAudioFrame_def FreshAudioSink_def)
qed

section \<open>The video frame path\<close>

lemma PlayerWithVideoSink_eq: "PlayerWithVideoSink = OpenedPlayer\<lparr>VideoSink := Some 3\<rparr>"
  by (simp add: PlayerWithVideoSink_def SetVideoSink_def OpenedPlayer_eq NewPlayer_def)

lemma VideoSink_ProcessVideoFrame:
  "VideoSink (fst (ProcessVideoFrame p VideoFrame sink)) = VideoSink p"
  by (simp add: ProcessVideoFrame_def Let_def split: option.splits)

lemma VideoSinkFormat_ProcessVideoFrame:
  "VideoSinkFormat (fst (ProcessVideoFrame p VideoFrame sink)) = VideoSinkFormat p"
  by (simp add: ProcessVideoFrame_def Let_def split: option.splits)

lemma ProcessVideoFrame_reinitialize:
  assumes "VideoSink p = Some s"
    and "GetTextureSinkFormat sink \<noteq> VideoSinkFormat p \<or>
         GetTextureSinkDimensions sink \<noteq> (xres VideoFrame, yres VideoFrame)"
  shows "video_sink_calls (snd (ProcessVideoFrame p VideoFrame sink)) =
           (s, InitializeTextureSink (xres VideoFrame, yres VideoFrame)
                 (div4 (line_stride_in_bytes VideoFrame), yres VideoFrame)
                 (VideoSinkFormat p) EMediaTextureSinkMode_Unbuffered) #
           (if InitializeTextureSinkResult sink
            then [(s, UpdateTextureSinkBuffer (video_p_data VideoFrame)
                        (line_stride_in_bytes VideoFrame)),
                  (s, DisplayTextureSinkBuffer (video_timecode VideoFrame))]
            else [])"
  using assms by (auto simp add: ProcessVideoFrame_def Let_def)

lemma ProcessVideoFrame_same_format:
  assumes "VideoSink p = Some s"
    and "GetTextureSinkFormat sink = VideoSinkFormat p"
    and "GetTextureSinkDimensions sink = (xres VideoFrame, yres VideoFrame)"
  shows "video_sink_calls (snd (ProcessVideoFrame p VideoFrame sink)) =
           [(s, UpdateTextureSinkBuffer (video_p_data VideoFrame)
                  (line_stride_in_bytes VideoFrame)),
            (s, DisplayTextureSinkBuffer (video_timecode VideoFrame))]"
  using assms by (simp add: ProcessVideoFrame_def Let_def)

text \<open>
  C6 (as amended).  A video frame delivered to a bound video sink makes at most one
  initialise call.  Of two consecutive frames with identical dimensions, the second
  makes none, so that the pair makes at most one (on the first), provided the sink
  reports the player's pixel format and the frames' dimensions when the second frame
  arrives, as it does once an initialise call has succeeded.  A frame whose dimensions
  or pixel format differ from what the sink reports makes exactly one initialise call,
  with the new dimensions; if that call fails the frame is dropped and neither the
  buffer-update nor the display hook is invoked.
\<close>

theorem ProcessVideoFrame_initialize_calls:
  assumes "VideoSink p = Some s"
    and "xres Second = xres First" and "yres Second = yres First"
  shows "let p1 = fst (ProcessVideoFrame p First sink1);
             e1 = snd (ProcessVideoFrame p First sink1);
             e2 = snd (ProcessVideoFrame p1 Second sink2)
         in length (initialize_calls e1) \<le> 1 \<and>
            (GetTextureSinkFormat sink2 = VideoSinkFormat p \<and>
             GetTextureSinkDimensions sink2 = (xres First, yres First) \<longrightarrow>
               initialize_calls e2 = [] \<and> length (initialize_calls (e1 @ e2)) \<le> 1) \<and>
            (GetTextureSinkFormat sink1 \<noteq> VideoSinkFormat p \<or>
             GetTextureSinkDimensions sink1 \<noteq> (xres First, yres First) \<longrightarrow>
               initialize_calls e1 =
                 [(s, InitializeTextureSink (xres First, yres First)
                        (div4 (line_stride_in_bytes First), yres First)
                        (VideoSinkFormat p) EMediaTextureSinkMode_Unbuffered)] \<and>
               (\<not> InitializeTextureSinkResult sink1 \<longrightarrow>
                  video_sink_calls e1 = initialize_calls e1))"
proof -
  let ?p1 = "fst (ProcessVideoFrame p First sink1)"
  have s1: "VideoSink ?p1 = Some s" and f1: "VideoSinkFormat ?p1 = VideoSinkFormat p"
    using assms(1) by (simp_all add: VideoSink_ProcessVideoFrame VideoSinkFormat_ProcessVideoFrame)
  have a: "length (initialize_calls (snd (ProcessVideoFrame p First sink1))) \<le> 1"
    using assms(1) by (simp add: initialize_calls_def ProcessVideoFrame_def Let_def)
  have b: "GetTextureSinkFormat sink2 = VideoSinkFormat p \<and>
           GetTextureSinkDimensions sink2 = (xres First, yres First) \<longrightarrow>
             initialize_calls (snd (ProcessVideoFrame ?p1 Second sink2)) = []"
    using ProcessVideoFrame_same_format [OF s1, of sink2 Second] f1 assms(2,3)
    by (simp add: initialize_calls_def)
  have c: "GetTextureSinkFormat sink1 \<noteq> VideoSinkFormat p \<or>
           GetTextureSinkDimensions sink1 \<noteq> (xres First, yres First) \<longrightarrow>
             initialize_calls (snd (ProcessVideoFrame p First sink1)) =
               [(s, InitializeTextureSink (xres First, yres First)
                      (div4 (line_stride_in_bytes First), yres First)
                      (VideoSinkFormat p) EMediaTextureSinkMode_Unbuffered)] \<and>
             (\<not> InitializeTextureSinkResult sink1 \<longrightarrow>
                video_sink_calls (snd (ProcessVideoFrame p First sink1)) =
                  initialize_calls (snd (ProcessVideoFrame p First sink1)))"
    using ProcessVideoFrame_reinitialize [OF assms(1), of sink1 First]
    by (simp add: initialize_calls_def)
  have d: "initialize_calls (e @ e') = initialize_calls e @ initialize_calls e'" for e e'
    by (induction e rule: video_sink_calls.induct) (simp_all add: initialize_calls_def)
  show ?thesis
    using a b c by (simp add: Let_def d)
qed

theorem ProcessVideoFrame_initialize_calls_witness:
  "VideoSink PlayerWithVideoSink = Some 3 \<and>
   initialize_calls (snd (ProcessVideoFrame PlayerWithVideoSink ExampleVideoFrame FreshTextureSink)) =
     [(3, InitializeTextureSink (1920, 1080) (1920, 1080) EMediaTextureSinkFormat_CharBGRA
            EMediaTextureSinkMode_Unbuffered)] \<and>
   initialize_calls
     (snd (ProcessVideoFrame
             (fst (ProcessVideoFrame PlayerWithVideoSink ExampleVideoFrame FreshTextureSink))
             NextVideoFrame InitializedTextureSink)) = []"
proof -
  have h: "VideoSink PlayerWithVideoSink = Some 3"
    by (simp add: PlayerWithVideoSink_eq)
  have x: "xres NextVideoFrame = xres ExampleVideoFrame"
    and y: "yres NextVideoFrame = yres ExampleVideoFrame"
    by (simp_all add: NextVideoFrame_def)
  have f: "VideoSinkFormat PlayerWithVideoSink = EMediaTextureSinkFormat_CharBGRA"
    by (simp add: PlayerWithVideoSink_eq OpenedPlayer_eq)
  from ProcessVideoFrame_initialize_calls [OF h x y, where ?sink1.0 = FreshTextureSink
      and ?sink2.0 = InitializedTextureSink] h f
  show ?thesis
    by (simp add: Let_def ExampleVideoFrame_def FreshTextureSink_def InitializedTextureSink_def
        RefusingTextureSink_def div4_def)
qed

text \<open>
  The claim as first stated (at most one initialise call for any two consecutive frames
  of identical dimensions) fails for a sink whose initialise call fails: it keeps
  reporting its old dimensions, and the second frame initialises it again.
\<close>

theorem ProcessVideoFrame_initialize_counterexample:
  "VideoSink PlayerWithVideoSink = Some 3 \<and>
   (xres NextVideoFrame, yres NextVideoFrame) = (xres ExampleVideoFrame, yres ExampleVideoFrame) \<and>
   initialize_calls
     (snd (ProcessVideoFrame PlayerWithVideoSink ExampleVideoFrame RefusingTextureSink) @
      snd (ProcessVideoFrame
             (fst (ProcessVideoFrame PlayerWithVideoSink ExampleVideoFrame RefusingTextureSink))
             NextVideoFrame RefusingTextureSink)) =
     [(3, InitializeTextureSink (1920, 1080) (1920, 1080) EMediaTextureSinkFormat_CharBGRA
            EMediaTextureSinkMode_Unbuffered),
      (3, InitializeTextureSink (1920, 1080) (1920, 1080) EMediaTextureSinkFormat_CharBGRA
            EMediaTextureSinkMode_Unbuffered)]"
  by (simp add: PlayerWithVideoSink_eq OpenedPlayer_eq NewPlayer_def ProcessVideoFrame_def
      Let_def NextVideoFrame_def ExampleVideoFrame_def RefusingTextureSink_def
      initialize_calls_def div4_def)

section \<open>Sink binding\<close>

text \<open>
  C7 (as amended).  For every sink-binding call (audio, video or metadata): binding the
  currently bound sink is a no-op.  Otherwise the previous sink's shutdown hook is
  invoked if one was bound, and a newly supplied sink's initialise hook is invoked with
  the cached format values of its kind (the metadata hook takes none).  For audio and
  metadata this happens before the new binding is recorded; for video the binding is
  recorded first and the initialise hook is invoked next.  Audio rebinding then
  recomputes the sampler's enablement.
\<close>

theorem sink_binding:
  "(Sink = AudioSink p \<longrightarrow> SetAudioSink p Sink = (p, [])) \<and>
   (Sink = MetadataSink p \<longrightarrow> SetMetadataSink p Sink = (p, [])) \<and>
   (Sink = VideoSink p \<longrightarrow> SetVideoSink p Sink = (p, [])) \<and>
   (Sink \<noteq> AudioSink p \<longrightarrow>
      SetAudioSink p Sink =
        (UpdateAudioSampler (p\<lparr>AudioSink := Sink\<rparr>),
         (case AudioSink p of None \<Rightarrow> [] | Some old \<Rightarrow> [OnAudioSink old ShutdownAudioSink]) @
         (case Sink of
            None \<Rightarrow> []
          | Some new \<Rightarrow>
              [OnAudioSink new
                 (InitializeAudioSink (LastAudioChannels p) (LastAudioSampleRate p))]) @
         [AudioSink_assigned Sink])) \<and>
   (Sink \<noteq> MetadataSink p \<longrightarrow>
      SetMetadataSink p Sink =
        (p\<lparr>MetadataSink := Sink\<rparr>,
         (case MetadataSink p of
            None \<Rightarrow> []
          | Some old \<Rightarrow> [OnMetadataSink old ShutdownBinarySink]) @
         (case Sink of None \<Rightarrow> [] | Some new \<Rightarrow> [OnMetadataSink new InitializeBinarySink]) @
         [MetadataSink_assigned Sink])) \<and>
   (Sink \<noteq> VideoSink p \<longrightarrow>
      SetVideoSink p Sink =
        (p\<lparr>VideoSink := Sink\<rparr>,
         (case VideoSink p of None \<Rightarrow> [] | Some old \<Rightarrow> [OnVideoSink old ShutdownTextureSink]) @
         [VideoSink_assigned Sink] @
         (case Sink of
            None \<Rightarrow> []
          | Some new \<Rightarrow>
              [OnVideoSink new
                 (InitializeTextureSink (LastVideoDim p) (LastBufferDim p) (VideoSinkFormat p)
                    EMediaTextureSinkMode_Unbuffered)])))"
  by (simp add: SetAudioSink_def SetMetadataSink_def SetVideoSink_def)

theorem sink_binding_witness:
  "Some 8 \<noteq> AudioSink PlayerWithAudioSink \<and>
   SetAudioSink PlayerWithAudioSink (Some 8) =
     (PlayerWithAudioSink\<lparr>AudioSink := Some 8\<rparr>,
      [OnAudioSink 7 ShutdownAudioSink, OnAudioSink 8 (InitializeAudioSink 0 0),
       AudioSink_assigned (Some 8)]) \<and>
   SetAudioSink PlayerWithAudioSink (Some 7) = (PlayerWithAudioSink, [])"
proof -
  have a: "AudioSink PlayerWithAudioSink = Some 7"
    by (simp add: PlayerWithAudioSink_eq)
  have u: "UpdateAudioSampler (PlayerWithAudioSink\<lparr>AudioSink := Some 8\<rparr>) =
           PlayerWithAudioSink\<lparr>AudioSink := Some 8\<rparr>"
    by (simp add: PlayerWithAudioSink_eq OpenedPlayer_eq NewPlayer_def UpdateAudioSampler_def
        SetReceiverInstance_def INDEX_NONE_def)
  have l: "LastAudioChannels PlayerWithAudioSink = 0" "LastAudioSampleRate PlayerWithAudioSink = 0"
    by (simp_all add: PlayerWithAudioSink_eq OpenedPlayer_eq NewPlayer_def)
  from sink_binding [where p = PlayerWithAudioSink and Sink = "Some 8"]
    sink_binding [where p = PlayerWithAudioSink and Sink = "Some 7"] a u l
  show ?thesis by simp
qed

text \<open>
  The claim as first stated (initialise before the binding is recorded, for all three
  kinds) fails for video: \<^verbatim>\<open>SetVideoSink\<close> assigns the pointer and then initialises.
\<close>

theorem SetVideoSink_order_counterexample:
  "VideoSink OpenedPlayer = None \<and>
   snd (SetVideoSink OpenedPlayer (Some 3)) =
     [VideoSink_assigned (Some 3),
      OnVideoSink 3 (InitializeTextureSink (0, 0) (0, 0) EMediaTextureSinkFormat_CharBGRA
                       EMediaTextureSinkMode_Unbuffered)]"
  by (simp add: SetVideoSink_def OpenedPlayer_eq NewPlayer_def FIntPoint_ZeroValue_def)

end
